theory Spec2Isabelle
  imports Complex_Main "HOL-Library.Word" "HOL-Library.Product_Lexorder"
begin

section \<open>The mock store service of the task-list application\<close>

text \<open>
  The service (\<^verbatim>\<open>services/mockApi\<close>) keeps one module-level array \<^verbatim>\<open>todos\<close> and
  exports four asynchronous operations. Each operation awaits a fixed delay and then runs the
  rest of its \<^verbatim>\<open>try\<close> block without another suspension point, so one call is one atomic
  transition of the array. The model passes the array explicitly: an operation takes the
  current array and returns the response envelope together with the array afterwards.

  What the code reads from its environment is an argument of the model:
  \<^item> the value \<^verbatim>\<open>Math.random()\<close> returns, a number in \<open>[0, 1)\<close>;
  \<^item> the value \<^verbatim>\<open>Date.now()\<close> returns, in milliseconds;
  \<^item> the instant each \<^verbatim>\<open>new Date()\<close> denotes (one argument per call site).

  The model is about the values of the records, not the identity of the objects that hold
  them: the copy \<^verbatim>\<open>[...todos]\<close> is the list itself.
\<close>

subsection \<open>Strings and timestamps\<close>

text \<open>
  A JavaScript string is a sequence of 16-bit code units; \<^verbatim>\<open>===\<close> on strings is equality of
  the sequences. \<open>js\<close> embeds an ASCII literal of the source.
\<close>

type_synonym jsstring = "16 word list"

definition js :: "string \<Rightarrow> jsstring" where
  "js s = map (\<lambda>c. of_nat (of_char c)) s"

text \<open>
  The fields \<^verbatim>\<open>createdAt\<close> and \<^verbatim>\<open>updatedAt\<close> hold ISO-8601 texts in UTC, such as
  \<^verbatim>\<open>2025-09-01T11:00:00Z\<close>, or \<^verbatim>\<open>2025-09-01T11:00:00.000Z\<close> from \<^verbatim>\<open>toISOString\<close>. The
  model keeps the instant such a text denotes, as year, month, day, hours, minutes, seconds and
  milliseconds; the lexicographic order of the seven components is the order of the instants.
\<close>

type_synonym timestamp = "nat \<times> nat \<times> nat \<times> nat \<times> nat \<times> nat \<times> nat"

subsection \<open>The entity model (\<^verbatim>\<open>types/todo\<close>)\<close>

text \<open>
  Field \<^verbatim>\<open>id\<close> of \<^verbatim>\<open>Todo\<close> is \<open>todo_id\<close> here. The fields of the two request types carry
  the prefixes \<open>c_\<close> and \<open>u_\<close>; an optional field of \<^verbatim>\<open>UpdateTodoRequest\<close> is \<open>None\<close> when
  the property is not present in the object. The callers (\<^verbatim>\<open>handleUpdateTodo\<close> with the
  payloads of \<^verbatim>\<open>TodoItem\<close>) pass each optional property with a value or leave it out; a
  property that is present with the value \<^verbatim>\<open>undefined\<close> is not modelled.
\<close>

record Todo =
  todo_id :: jsstring
  title :: jsstring
  description :: jsstring
  completed :: bool
  createdAt :: timestamp
  updatedAt :: timestamp

record CreateTodoRequest =
  c_title :: jsstring
  c_description :: jsstring

record UpdateTodoRequest =
  u_id :: jsstring
  u_title :: "jsstring option"
  u_description :: "jsstring option"
  u_completed :: "bool option"

text \<open>
  \<^verbatim>\<open>ApiResponse<T>\<close>: every field but \<^verbatim>\<open>success\<close> is optional, \<open>None\<close> when the object
  literal does not set it. \<^verbatim>\<open>DeleteResponse\<close> is \<^verbatim>\<open>ApiResponse<null>\<close>: its \<^verbatim>\<open>data\<close>, when
  set, is \<^verbatim>\<open>null\<close>.
\<close>

record 'a ApiResponse =
  success :: bool
  data :: "'a option"
  error :: "jsstring option"
  message :: "jsstring option"

datatype js_null = Null

type_synonym TodoListResponse = "Todo list ApiResponse"
type_synonym TodoResponse = "Todo ApiResponse"
type_synonym DeleteResponse = "js_null ApiResponse"

subsection \<open>The seeded collection\<close>

definition todos :: "Todo list" where
  "todos =
    [\<lparr>todo_id = js ''1'',
      title = js ''Go to the gym'',
      description = js ''Build up my body for summer time'',
      completed = False,
      createdAt = (2025, 9, 1, 11, 0, 0, 0),
      updatedAt = (2025, 9, 1, 10, 0, 0, 0)\<rparr>,
     \<lparr>todo_id = js ''2'',
      title = js ''Wait fo FC26 to be launched'',
      description = js ''Cant wait to see the new features'',
      completed = True,
      createdAt = (2025, 9, 7, 11, 0, 0, 0),
      updatedAt = (2025, 9, 8, 12, 0, 0, 0)\<rparr>,
     \<lparr>todo_id = js ''3'',
      title = js ''Update my portfolio'',
      description = js ''Add my recent projects'',
      completed = False,
      createdAt = (2025, 9, 3, 13, 0, 0, 0),
      updatedAt = (2025, 9, 5, 13, 0, 0, 0)\<rparr>]"

subsection \<open>Helpers of the service\<close>

text \<open>
  \<^verbatim>\<open>shouldFail(operation?)\<close>: the argument \<open>rnd\<close> is what \<^verbatim>\<open>Math.random()\<close> returns when it is
  called. A double below the double \<^verbatim>\<open>0.05\<close> is below one twentieth and conversely, since
  \<^verbatim>\<open>0.05\<close> is the least double that is not below one twentieth.
\<close>

definition shouldFail :: "jsstring option \<Rightarrow> real \<Rightarrow> bool" where
  "shouldFail operation rnd =
     (if operation = Some (js ''fetch'') then False else rnd < 0.05)"

text \<open>\<^verbatim>\<open>Number.prototype.toString(36)\<close> on an integer.\<close>

definition digit36 :: "nat \<Rightarrow> 16 word" where
  "digit36 d = (if d < 10 then of_nat (48 + d) else of_nat (87 + d))"

fun toString36_nat :: "nat \<Rightarrow> jsstring" where
  "toString36_nat n =
     (if n < 36 then [digit36 n] else toString36_nat (n div 36) @ [digit36 (n mod 36)])"

declare toString36_nat.simps [simp del]

definition toString36 :: "int \<Rightarrow> jsstring" where
  "toString36 n =
     (if n < 0 then js ''-'' @ toString36_nat (nat (- n)) else toString36_nat (nat n))"

text \<open>
  \<^verbatim>\<open>generateId()\<close>: \<open>now\<close> is the value of \<^verbatim>\<open>Date.now()\<close> and \<open>rnd36\<close> the text
  \<^verbatim>\<open>Math.random().toString(36)\<close>, such as \<^verbatim>\<open>0.4fzyo82mvyr\<close>; \<^verbatim>\<open>substr(2)\<close> drops its first
  two code units.
\<close>

definition generateId :: "int \<Rightarrow> jsstring \<Rightarrow> jsstring" where
  "generateId now rnd36 = toString36 now @ drop 2 rnd36"

text \<open>
  \<^verbatim>\<open>String.prototype.trim\<close> strips the code units of WhiteSpace and LineTerminator from both
  ends.
\<close>

definition isWhiteSpace :: "16 word \<Rightarrow> bool" where
  "isWhiteSpace c \<longleftrightarrow>
     c = 0x9 \<or> c = 0xA \<or> c = 0xB \<or> c = 0xC \<or> c = 0xD \<or> c = 0x20 \<or> c = 0xA0 \<or>
     c = 0x1680 \<or> (0x2000 \<le> c \<and> c \<le> 0x200A) \<or> c = 0x2028 \<or> c = 0x2029 \<or>
     c = 0x202F \<or> c = 0x205F \<or> c = 0x3000 \<or> c = 0xFEFF"

definition trim :: "jsstring \<Rightarrow> jsstring" where
  "trim s = rev (dropWhile isWhiteSpace (rev (dropWhile isWhiteSpace s)))"

text \<open>\<^verbatim>\<open>Array.prototype.findIndex\<close>: the first index whose element satisfies \<open>p\<close>, or \<open>-1\<close>.\<close>

fun findIndex :: "('a \<Rightarrow> bool) \<Rightarrow> 'a list \<Rightarrow> int" where
  "findIndex p [] = - 1"
| "findIndex p (x # xs) =
     (if p x then 0 else (let i = findIndex p xs in if i = - 1 then - 1 else i + 1))"

text \<open>\<^verbatim>\<open>xs.splice(i, 1)\<close> for an index \<open>i\<close> of the array: the array without that element.\<close>

definition splice1 :: "nat \<Rightarrow> 'a list \<Rightarrow> 'a list" where
  "splice1 i xs = take i xs @ drop (Suc i) xs"

subsection \<open>Thrown values and the \<^verbatim>\<open>catch\<close> blocks\<close>

text \<open>
  The \<^verbatim>\<open>try\<close> block of an operation either returns or throws. A thrown value is an
  \<^verbatim>\<open>Error\<close> with its message; \<open>NotAnError\<close> stands for any other thrown value, which the
  \<^verbatim>\<open>catch\<close> blocks report as \<^verbatim>\<open>Unknown error occurred\<close>.
\<close>

datatype thrown = Error jsstring | NotAnError

definition errorText :: "thrown \<Rightarrow> jsstring" where
  "errorText e = (case e of Error m \<Rightarrow> m | NotAnError \<Rightarrow> js ''Unknown error occurred'')"

subsection \<open>\<^verbatim>\<open>fetchTodos\<close>\<close>

definition fetchTodos_try :: "real \<Rightarrow> Todo list \<Rightarrow> thrown + TodoListResponse" where
  "fetchTodos_try rnd ts =
     (if shouldFail (Some (js ''fetch'')) rnd
      then Inl (Error (js ''Failed to fetch todos. Please try again.''))
      else Inr \<lparr>success = True, data = Some ts, error = None,
                message = Some (js ''Todos fetched successfully'')\<rparr>)"

definition fetchTodos :: "real \<Rightarrow> Todo list \<Rightarrow> TodoListResponse \<times> Todo list" where
  "fetchTodos rnd ts =
     (case fetchTodos_try rnd ts of
        Inr r \<Rightarrow> (r, ts)
      | Inl e \<Rightarrow> (\<lparr>success = False, data = None, error = Some (errorText e),
                    message = None\<rparr>, ts))"

subsection \<open>\<^verbatim>\<open>createTodo\<close>\<close>

text \<open>
  Besides the draw of \<^verbatim>\<open>shouldFail\<close>, the call reads \<^verbatim>\<open>Date.now()\<close> and \<^verbatim>\<open>Math.random()\<close>
  in \<^verbatim>\<open>generateId\<close>, and the clock once for \<^verbatim>\<open>createdAt\<close> (\<open>t1\<close>) and once more for
  \<^verbatim>\<open>updatedAt\<close> (\<open>t2\<close>): the object literal holds two \<^verbatim>\<open>new Date()\<close> expressions.
  \<^verbatim>\<open>todos.push\<close> appends.
\<close>

definition createTodo_try ::
  "CreateTodoRequest \<Rightarrow> real \<Rightarrow> int \<Rightarrow> jsstring \<Rightarrow> timestamp \<Rightarrow> timestamp \<Rightarrow> Todo list
     \<Rightarrow> thrown + (TodoResponse \<times> Todo list)" where
  "createTodo_try todoData rnd now rnd36 t1 t2 ts =
     (if shouldFail None rnd
      then Inl (Error (js ''Failed to create todo. Please try again.''))
      else
        let newTodo = \<lparr>todo_id = generateId now rnd36,
                       title = trim (c_title todoData),
                       description = trim (c_description todoData),
                       completed = False,
                       createdAt = t1,
                       updatedAt = t2\<rparr>
        in Inr (\<lparr>success = True, data = Some newTodo, error = None,
                  message = Some (js ''Todo created successfully'')\<rparr>,
                ts @ [newTodo]))"

definition createTodo ::
  "CreateTodoRequest \<Rightarrow> real \<Rightarrow> int \<Rightarrow> jsstring \<Rightarrow> timestamp \<Rightarrow> timestamp \<Rightarrow> Todo list
     \<Rightarrow> TodoResponse \<times> Todo list" where
  "createTodo todoData rnd now rnd36 t1 t2 ts =
     (case createTodo_try todoData rnd now rnd36 t1 t2 ts of
        Inr r \<Rightarrow> r
      | Inl e \<Rightarrow> (\<lparr>success = False, data = None, error = Some (errorText e),
                    message = None\<rparr>, ts))"

subsection \<open>\<^verbatim>\<open>updateTodo\<close>\<close>

text \<open>
  The object spread \<^verbatim>\<open>{...todos[todoIndex], ...todoData, updatedAt: ...}\<close>: the properties of
  the stored record, overwritten by the properties \<^verbatim>\<open>todoData\<close> has (its \<^verbatim>\<open>id\<close> always, the
  other three when present), then \<^verbatim>\<open>updatedAt\<close> overwritten by the clock reading \<open>t\<close>.
\<close>

definition merge :: "Todo \<Rightarrow> UpdateTodoRequest \<Rightarrow> timestamp \<Rightarrow> Todo" where
  "merge old todoData t =
     \<lparr>todo_id = u_id todoData,
      title = (case u_title todoData of Some v \<Rightarrow> v | None \<Rightarrow> title old),
      description = (case u_description todoData of Some v \<Rightarrow> v | None \<Rightarrow> description old),
      completed = (case u_completed todoData of Some v \<Rightarrow> v | None \<Rightarrow> completed old),
      createdAt = createdAt old,
      updatedAt = t\<rparr>"

definition updateTodo_try ::
  "UpdateTodoRequest \<Rightarrow> real \<Rightarrow> timestamp \<Rightarrow> Todo list \<Rightarrow> thrown + (TodoResponse \<times> Todo list)" where
  "updateTodo_try todoData rnd t ts =
     (if shouldFail None rnd
      then Inl (Error (js ''Failed to update todo. Please try again.''))
      else
        let todoIndex = findIndex (\<lambda>todo. todo_id todo = u_id todoData) ts
        in if todoIndex = - 1
           then Inl (Error (js ''Todo not found''))
           else
             let updatedTodo = merge (ts ! nat todoIndex) todoData t
             in Inr (\<lparr>success = True, data = Some updatedTodo, error = None,
                       message = Some (js ''Todo updated successfully'')\<rparr>,
                     ts[nat todoIndex := updatedTodo]))"

definition updateTodo ::
  "UpdateTodoRequest \<Rightarrow> real \<Rightarrow> timestamp \<Rightarrow> Todo list \<Rightarrow> TodoResponse \<times> Todo list" where
  "updateTodo todoData rnd t ts =
     (case updateTodo_try todoData rnd t ts of
        Inr r \<Rightarrow> r
      | Inl e \<Rightarrow> (\<lparr>success = False, data = None, error = Some (errorText e),
                    message = None\<rparr>, ts))"

subsection \<open>\<^verbatim>\<open>deleteTodo\<close>\<close>

definition deleteTodo_try ::
  "jsstring \<Rightarrow> real \<Rightarrow> Todo list \<Rightarrow> thrown + (DeleteResponse \<times> Todo list)" where
  "deleteTodo_try i rnd ts =
     (if shouldFail None rnd
      then Inl (Error (js ''Failed to delete todo. Please try again.''))
      else
        let todoIndex = findIndex (\<lambda>todo. todo_id todo = i) ts
        in if todoIndex = - 1
           then Inl (Error (js ''Todo not found''))
           else Inr (\<lparr>success = True, data = Some Null, error = None,
                       message = Some (js ''Todo deleted successfully'')\<rparr>,
                     splice1 (nat todoIndex) ts))"

definition deleteTodo :: "jsstring \<Rightarrow> real \<Rightarrow> Todo list \<Rightarrow> DeleteResponse \<times> Todo list" where
  "deleteTodo i rnd ts =
     (case deleteTodo_try i rnd ts of
        Inr r \<Rightarrow> r
      | Inl e \<Rightarrow> (\<lparr>success = False, data = None, error = Some (errorText e),
                    message = Some (js ''Failed to delete todo'')\<rparr>, ts))"

subsection \<open>Sequences of calls\<close>

text \<open>
  A call of the service with everything it reads from its environment. The presentation layer
  only ever changes the array through these four operations.
\<close>

datatype call =
  Fetch real
| Create CreateTodoRequest real int jsstring timestamp timestamp
| Update UpdateTodoRequest real timestamp
| Delete jsstring real

fun step :: "Todo list \<Rightarrow> call \<Rightarrow> Todo list" where
  "step ts (Fetch rnd) = snd (fetchTodos rnd ts)"
| "step ts (Create todoData rnd now rnd36 t1 t2) = snd (createTodo todoData rnd now rnd36 t1 t2 ts)"
| "step ts (Update todoData rnd t) = snd (updateTodo todoData rnd t ts)"
| "step ts (Delete i rnd) = snd (deleteTodo i rnd ts)"

fun run :: "Todo list \<Rightarrow> call list \<Rightarrow> Todo list" where
  "run ts [] = ts"
| "run ts (c # cs) = run (step ts c) cs"

text \<open>
  \<open>freshIds ts cs\<close>: along the run of \<open>cs\<close> from \<open>ts\<close>, every \<^verbatim>\<open>createTodo\<close> that gets past
  \<^verbatim>\<open>shouldFail\<close> generates an identifier that no record of the array has at that moment.
\<close>

fun freshIds :: "Todo list \<Rightarrow> call list \<Rightarrow> bool" where
  "freshIds ts [] = True"
| "freshIds ts (Create todoData rnd now rnd36 t1 t2 # cs) =
     ((shouldFail None rnd \<or> generateId now rnd36 \<notin> set (map todo_id ts)) \<and>
      freshIds (step ts (Create todoData rnd now rnd36 t1 t2)) cs)"
| "freshIds ts (c # cs) = freshIds (step ts c) cs"

subsection \<open>Well-formed envelopes\<close>

text \<open>
  The shape callers rely on: a successful envelope sets \<^verbatim>\<open>data\<close> and \<^verbatim>\<open>message\<close> and no
  \<^verbatim>\<open>error\<close>; a failed one sets a non-empty \<^verbatim>\<open>error\<close> and no \<^verbatim>\<open>data\<close>.
\<close>

definition wellFormed :: "'a ApiResponse \<Rightarrow> bool" where
  "wellFormed r =
     (if success r then data r \<noteq> None \<and> message r \<noteq> None \<and> error r = None
      else (case error r of Some e \<Rightarrow> e \<noteq> [] | None \<Rightarrow> False) \<and> data r = None)"

section \<open>Auxiliary facts\<close>

subsection \<open>Literals\<close>

lemma of_char_word16_inj: "inj (\<lambda>c::char. (of_nat (of_char c) :: 16 word))"
proof (rule injI)
  fix x y :: char
  assume h: "(of_nat (of_char x) :: 16 word) = of_nat (of_char y)"
  have small: "(of_char c :: nat) < 2 ^ LENGTH(16)" for c :: char
    by (rule less_trans [OF nat_of_char_less_256]) simp
  have "(of_char x :: nat) = unat (of_nat (of_char x) :: 16 word)"
    by (rule of_nat_inverse [OF refl small, symmetric])
  also have "\<dots> = unat (of_nat (of_char y) :: 16 word)"
    by (simp only: h)
  also have "\<dots> = of_char y"
    by (rule of_nat_inverse [OF refl small])
  finally have "(of_char x :: nat) = of_char y" .
  then show "x = y" by (simp only: of_char_eq_iff)
qed

lemma js_eq_iff [simp]: "js a = js b \<longleftrightarrow> a = b"
  unfolding js_def by (simp add: inj_map_eq_map [OF of_char_word16_inj])

lemma js_Nil_iff [simp]: "js s = [] \<longleftrightarrow> s = []"
  by (simp add: js_def)

subsection \<open>\<open>findIndex\<close>\<close>

lemma findIndex_takeWhile:
  "findIndex p xs =
     (if \<exists>x \<in> set xs. p x then int (length (takeWhile (\<lambda>x. \<not> p x) xs)) else - 1)"
  by (induction xs) (auto simp: Let_def)

lemma findIndex_none_iff: "findIndex p xs = - 1 \<longleftrightarrow> (\<forall>x \<in> set xs. \<not> p x)"
  by (simp add: findIndex_takeWhile)

lemma findIndex_id_none_iff:
  "findIndex (\<lambda>todo. todo_id todo = i) ts = - 1 \<longleftrightarrow> i \<notin> set (map todo_id ts)"
  by (auto simp: findIndex_none_iff)

lemma length_takeWhile_lt:
  "\<exists>x \<in> set xs. p x \<Longrightarrow> length (takeWhile (\<lambda>x. \<not> p x) xs) < length xs"
  by (induction xs) auto

lemma findIndex_lt: 
  assumes "findIndex p xs \<noteq> - 1"
  shows "nat (findIndex p xs) < length xs"
proof -
  from assms have ex: "\<exists>x \<in> set xs. p x" by (simp add: findIndex_none_iff)
  then have "length (takeWhile (\<lambda>x. \<not> p x) xs) < length xs"
    by (rule length_takeWhile_lt)
  with ex show ?thesis by (simp add: findIndex_takeWhile)
qed

lemma findIndex_sat: 
  assumes "findIndex p xs \<noteq> - 1"
  shows "p (xs ! nat (findIndex p xs))"
proof -
  from assms have ex: "\<exists>x \<in> set xs. p x" by (simp add: findIndex_none_iff)
  have "length (takeWhile (\<lambda>x. \<not> p x) xs) < length xs"
    using findIndex_lt [OF assms] ex by (simp add: findIndex_takeWhile)
  then have "\<not> \<not> p (xs ! length (takeWhile (\<lambda>x. \<not> p x) xs))"
    by (rule nth_length_takeWhile)
  with ex show ?thesis by (simp add: findIndex_takeWhile)
qed

lemma findIndex_update_same:
  "findIndex p xs \<noteq> - 1 \<Longrightarrow> p y \<Longrightarrow>
     findIndex p (xs[nat (findIndex p xs) := y]) = findIndex p xs"
proof (induction xs)
  case Nil
  then show ?case by simp
next
  case (Cons x xs)
  show ?case
  proof (cases "p x")
    case True
    with Cons.prems show ?thesis by simp
  next
    case False
    with Cons.prems have found: "findIndex p xs \<noteq> - 1" by (auto simp: Let_def)
    then have nonneg: "0 \<le> findIndex p xs" by (simp add: findIndex_takeWhile split: if_splits)
    then have "nat (findIndex p xs + 1) = Suc (nat (findIndex p xs))" by simp
    with False found Cons.IH [OF found Cons.prems(2)] show ?thesis
      by (simp add: Let_def)
  qed
qed

subsection \<open>The outcomes of each operation\<close>

lemma fetchTodos_eq:
  "fetchTodos rnd ts =
     (\<lparr>success = True, data = Some ts, error = None,
       message = Some (js ''Todos fetched successfully'')\<rparr>, ts)"
  by (simp add: fetchTodos_def fetchTodos_try_def shouldFail_def)

lemma createTodo_injected:
  "rnd < 0.05 \<Longrightarrow>
   createTodo d rnd now rnd36 t1 t2 ts =
     (\<lparr>success = False, data = None,
       error = Some (js ''Failed to create todo. Please try again.''), message = None\<rparr>, ts)"
  by (simp add: createTodo_def createTodo_try_def shouldFail_def errorText_def)

lemma createTodo_ok:
  "\<not> rnd < 0.05 \<Longrightarrow>
   createTodo d rnd now rnd36 t1 t2 ts =
     (\<lparr>success = True,
       data = Some \<lparr>todo_id = generateId now rnd36, title = trim (c_title d),
                    description = trim (c_description d), completed = False,
                    createdAt = t1, updatedAt = t2\<rparr>,
       error = None, message = Some (js ''Todo created successfully'')\<rparr>,
      ts @ [\<lparr>todo_id = generateId now rnd36, title = trim (c_title d),
              description = trim (c_description d), completed = False,
              createdAt = t1, updatedAt = t2\<rparr>])"
  by (simp add: createTodo_def createTodo_try_def shouldFail_def Let_def)

lemma updateTodo_injected:
  "rnd < 0.05 \<Longrightarrow>
   updateTodo d rnd t ts =
     (\<lparr>success = False, data = None,
       error = Some (js ''Failed to update todo. Please try again.''), message = None\<rparr>, ts)"
  by (simp add: updateTodo_def updateTodo_try_def shouldFail_def errorText_def)

lemma updateTodo_missing:
  "\<not> rnd < 0.05 \<Longrightarrow> u_id d \<notin> set (map todo_id ts) \<Longrightarrow>
   updateTodo d rnd t ts =
     (\<lparr>success = False, data = None, error = Some (js ''Todo not found''), message = None\<rparr>, ts)"
  using findIndex_id_none_iff [of "u_id d" ts]
  by (simp add: updateTodo_def updateTodo_try_def shouldFail_def errorText_def Let_def)

lemma updateTodo_ok:
  "\<not> rnd < 0.05 \<Longrightarrow> u_id d \<in> set (map todo_id ts) \<Longrightarrow>
   updateTodo d rnd t ts =
     (\<lparr>success = True,
       data = Some (merge (ts ! nat (findIndex (\<lambda>todo. todo_id todo = u_id d) ts)) d t),
       error = None, message = Some (js ''Todo updated successfully'')\<rparr>,
      ts[nat (findIndex (\<lambda>todo. todo_id todo = u_id d) ts) :=
           merge (ts ! nat (findIndex (\<lambda>todo. todo_id todo = u_id d) ts)) d t])"
  using findIndex_id_none_iff [of "u_id d" ts]
  by (simp add: updateTodo_def updateTodo_try_def shouldFail_def Let_def)

lemma deleteTodo_injected:
  "rnd < 0.05 \<Longrightarrow>
   deleteTodo i rnd ts =
     (\<lparr>success = False, data = None,
       error = Some (js ''Failed to delete todo. Please try again.''),
       message = Some (js ''Failed to delete todo'')\<rparr>, ts)"
  by (simp add: deleteTodo_def deleteTodo_try_def shouldFail_def errorText_def)

lemma deleteTodo_missing:
  "\<not> rnd < 0.05 \<Longrightarrow> i \<notin> set (map todo_id ts) \<Longrightarrow>
   deleteTodo i rnd ts =
     (\<lparr>success = False, data = None, error = Some (js ''Todo not found''),
       message = Some (js ''Failed to delete todo'')\<rparr>, ts)"
  using findIndex_id_none_iff [of i ts]
  by (simp add: deleteTodo_def deleteTodo_try_def shouldFail_def errorText_def Let_def)

lemma deleteTodo_ok:
  "\<not> rnd < 0.05 \<Longrightarrow> i \<in> set (map todo_id ts) \<Longrightarrow>
   deleteTodo i rnd ts =
     (\<lparr>success = True, data = Some Null, error = None,
       message = Some (js ''Todo deleted successfully'')\<rparr>,
      splice1 (nat (findIndex (\<lambda>todo. todo_id todo = i) ts)) ts)"
  using findIndex_id_none_iff [of i ts]
  by (simp add: deleteTodo_def deleteTodo_try_def shouldFail_def Let_def)

lemma todos_ids: "map todo_id todos = [js ''1'', js ''2'', js ''3'']"
  by (simp add: todos_def)

lemma createTodo_cases:
  "createTodo d rnd now rnd36 t1 t2 ts =
     (if rnd < 0.05
      then (\<lparr>success = False, data = None,
             error = Some (js ''Failed to create todo. Please try again.''), message = None\<rparr>, ts)
      else (\<lparr>success = True,
             data = Some \<lparr>todo_id = generateId now rnd36, title = trim (c_title d),
                          description = trim (c_description d), completed = False,
                          createdAt = t1, updatedAt = t2\<rparr>,
             error = None, message = Some (js ''Todo created successfully'')\<rparr>,
            ts @ [\<lparr>todo_id = generateId now rnd36, title = trim (c_title d),
                    description = trim (c_description d), completed = False,
                    createdAt = t1, updatedAt = t2\<rparr>]))"
  by (simp add: createTodo_injected createTodo_ok)

lemma updateTodo_success_iff:
  "success (fst (updateTodo d rnd t ts)) \<longleftrightarrow> \<not> rnd < 0.05 \<and> u_id d \<in> set (map todo_id ts)"
proof (cases "rnd < 0.05")
  case True
  then show ?thesis by (simp add: updateTodo_injected)
next
  case False
  then show ?thesis
    by (cases "u_id d \<in> set (map todo_id ts)") (simp_all add: updateTodo_ok updateTodo_missing)
qed

lemma deleteTodo_success_iff:
  "success (fst (deleteTodo i rnd ts)) \<longleftrightarrow> \<not> rnd < 0.05 \<and> i \<in> set (map todo_id ts)"
proof (cases "rnd < 0.05")
  case True
  then show ?thesis by (simp add: deleteTodo_injected)
next
  case False
  then show ?thesis
    by (cases "i \<in> set (map todo_id ts)") (simp_all add: deleteTodo_ok deleteTodo_missing)
qed

lemma updateTodo_failure_unchanged:
  "\<not> success (fst (updateTodo d rnd t ts)) \<Longrightarrow> snd (updateTodo d rnd t ts) = ts"
  by (cases "rnd < 0.05"; cases "u_id d \<in> set (map todo_id ts)")
     (simp_all add: updateTodo_injected updateTodo_ok updateTodo_missing)

lemma deleteTodo_failure_unchanged:
  "\<not> success (fst (deleteTodo i rnd ts)) \<Longrightarrow> snd (deleteTodo i rnd ts) = ts"
  by (cases "rnd < 0.05"; cases "i \<in> set (map todo_id ts)")
     (simp_all add: deleteTodo_injected deleteTodo_ok deleteTodo_missing)

lemma wellFormed_updateTodo: "wellFormed (fst (updateTodo u rnd t ts))"
  by (cases "rnd < 0.05"; cases "u_id u \<in> set (map todo_id ts)")
     (simp_all add: wellFormed_def updateTodo_injected updateTodo_ok updateTodo_missing)

lemma wellFormed_deleteTodo: "wellFormed (fst (deleteTodo i rnd ts))"
  by (cases "rnd < 0.05"; cases "i \<in> set (map todo_id ts)")
     (simp_all add: wellFormed_def deleteTodo_injected deleteTodo_ok deleteTodo_missing)

lemma deleteTodo_failure_envelope:
  "\<not> success (fst (deleteTodo i rnd ts)) \<Longrightarrow>
   fst (deleteTodo i rnd ts) =
     \<lparr>success = False, data = None,
      error = Some (if rnd < 0.05 then js ''Failed to delete todo. Please try again.''
                    else js ''Todo not found''),
      message = Some (js ''Failed to delete todo'')\<rparr>"
  by (cases "rnd < 0.05"; cases "i \<in> set (map todo_id ts)")
     (simp_all add: deleteTodo_injected deleteTodo_ok deleteTodo_missing)

subsection \<open>The update and delete paths\<close>

lemma merge_fields:
  "todo_id (merge old u t) = u_id u"
  "createdAt (merge old u t) = createdAt old"
  "updatedAt (merge old u t) = t"
  "title (merge old u t) = (case u_title u of Some v \<Rightarrow> v | None \<Rightarrow> title old)"
  "description (merge old u t) = (case u_description u of Some v \<Rightarrow> v | None \<Rightarrow> description old)"
  "completed (merge old u t) = (case u_completed u of Some v \<Rightarrow> v | None \<Rightarrow> completed old)"
  by (simp_all add: merge_def)

lemma findIndex_id_lt:
  "i \<in> set (map todo_id ts) \<Longrightarrow> nat (findIndex (\<lambda>todo. todo_id todo = i) ts) < length ts"
  by (rule findIndex_lt) (simp add: findIndex_id_none_iff)

lemma findIndex_id_sat:
  "i \<in> set (map todo_id ts) \<Longrightarrow> todo_id (ts ! nat (findIndex (\<lambda>todo. todo_id todo = i) ts)) = i"
  using findIndex_sat [of "\<lambda>todo. todo_id todo = i" ts] by (simp add: findIndex_id_none_iff)

lemma merge_twice: "merge (merge old u t1) u t2 = (merge old u t1)\<lparr>updatedAt := t2\<rparr>"
  by (simp add: merge_def split: option.splits)

lemma length_splice1: "k < length xs \<Longrightarrow> Suc (length (splice1 k xs)) = length xs"
  by (simp add: splice1_def)

lemma splice1_filter:
  "distinct (map f xs) \<Longrightarrow> k < length xs \<Longrightarrow>
   splice1 k xs = filter (\<lambda>x. f x \<noteq> f (xs ! k)) xs"
proof (induction xs arbitrary: k)
  case Nil
  then show ?case by simp
next
  case (Cons x xs)
  show ?case
  proof (cases k)
    case 0
    from Cons.prems have "f x \<notin> f ` set xs" by simp
    then have "\<forall>y \<in> set xs. f y \<noteq> f x" by (metis image_eqI)
    then have "filter (\<lambda>y. f y \<noteq> f x) xs = xs" by (simp add: filter_id_conv)
    with 0 show ?thesis by (simp add: splice1_def)
  next
    case (Suc j)
    with Cons.prems have j: "j < length xs" and d: "distinct (map f xs)" by simp_all
    from j Cons.prems have "f x \<noteq> f (xs ! j)" by (metis distinct.simps(2) image_eqI list.simps(9) nth_mem set_map)
    with Suc Cons.IH [OF d j] show ?thesis by (simp add: splice1_def)
  qed
qed

lemma distinct_splice1: "distinct xs \<Longrightarrow> distinct (splice1 k xs)"
proof -
  assume d: "distinct xs"
  have "set (drop (Suc k) xs) \<subseteq> set (drop k xs)"
    by (metis Suc_n_not_le_n nat_le_linear set_drop_subset_set_drop)
  moreover have "set (take k xs) \<inter> set (drop k xs) = {}"
    using d by (metis append_take_drop_id distinct_append)
  ultimately have "set (take k xs) \<inter> set (drop (Suc k) xs) = {}" by blast
  with d show ?thesis by (simp add: splice1_def)
qed

lemma map_splice1: "map f (splice1 k xs) = splice1 k (map f xs)"
  by (simp add: splice1_def take_map drop_map)

lemma ids_updateTodo: "map todo_id (snd (updateTodo u rnd t ts)) = map todo_id ts"
proof (cases "success (fst (updateTodo u rnd t ts))")
  case True
  then have ok: "\<not> rnd < 0.05" and mem: "u_id u \<in> set (map todo_id ts)"
    by (simp_all add: updateTodo_success_iff)
  define k where "k = nat (findIndex (\<lambda>todo. todo_id todo = u_id u) ts)"
  have "k < length ts" and "todo_id (ts ! k) = u_id u"
    unfolding k_def using findIndex_id_lt [OF mem] findIndex_id_sat [OF mem] by simp_all
  then have "(map todo_id ts)[k := u_id u] = (map todo_id ts)[k := map todo_id ts ! k]"
    by simp
  also have "\<dots> = map todo_id ts"
    by (rule list_update_id)
  finally show ?thesis
    by (simp add: updateTodo_ok [OF ok mem] map_update merge_fields k_def)
next
  case False
  then show ?thesis by (simp add: updateTodo_failure_unchanged)
qed

lemma distinct_ids_deleteTodo:
  "distinct (map todo_id ts) \<Longrightarrow> distinct (map todo_id (snd (deleteTodo i rnd ts)))"
proof (cases "success (fst (deleteTodo i rnd ts))")
  case True
  assume d: "distinct (map todo_id ts)"
  from True have ok: "\<not> rnd < 0.05" and mem: "i \<in> set (map todo_id ts)"
    by (simp_all add: deleteTodo_success_iff)
  show ?thesis
    using distinct_splice1 [OF d]
    by (simp add: deleteTodo_ok [OF ok mem] map_splice1)
next
  case False
  assume "distinct (map todo_id ts)"
  with False show ?thesis by (simp add: deleteTodo_failure_unchanged)
qed

lemma distinct_ids_createTodo:
  "distinct (map todo_id ts) \<Longrightarrow>
   shouldFail None rnd \<or> generateId now rnd36 \<notin> set (map todo_id ts) \<Longrightarrow>
   distinct (map todo_id (snd (createTodo c rnd now rnd36 t1 t2 ts)))"
  by (auto simp: createTodo_cases shouldFail_def)

text \<open>
  What a successful \<^verbatim>\<open>createTodo\<close> does: the new record is returned and appended, not
  completed, with the trimmed title and description, \<^verbatim>\<open>createdAt\<close> from the first reading
  of the clock and \<^verbatim>\<open>updatedAt\<close> from the second.
\<close>

lemma createTodo_success:
  assumes "success (fst (createTodo c rnd now rnd36 t1 t2 ts))"
  shows "\<exists>new. data (fst (createTodo c rnd now rnd36 t1 t2 ts)) = Some new \<and>
           snd (createTodo c rnd now rnd36 t1 t2 ts) = ts @ [new] \<and>
           completed new = False \<and> title new = trim (c_title c) \<and>
           description new = trim (c_description c) \<and>
           createdAt new = t1 \<and> updatedAt new = t2"
  using assms by (simp add: createTodo_cases split: if_splits)

text \<open>
  Which calls keep the identifiers pairwise distinct: \<^verbatim>\<open>fetchTodos\<close>, \<^verbatim>\<open>updateTodo\<close> and
  \<^verbatim>\<open>deleteTodo\<close> always do; \<^verbatim>\<open>createTodo\<close> does when the identifier it generates is not in
  use, which nothing in the service checks.
\<close>

lemma distinct_ids_run:
  assumes "distinct (map todo_id ts)" and "freshIds ts cs"
  shows "distinct (map todo_id (run ts cs))"
  using assms
proof (induction cs arbitrary: ts)
  case Nil
  then show ?case by simp
next
  case (Cons c cs)
  have "distinct (map todo_id (step ts c)) \<and> freshIds (step ts c) cs"
  proof (cases c)
    case (Fetch rnd)
    with Cons.prems show ?thesis by (simp add: fetchTodos_eq)
  next
    case (Create todoData rnd now rnd36 t1 t2)
    with Cons.prems show ?thesis by (simp add: distinct_ids_createTodo)
  next
    case (Update todoData rnd t)
    with Cons.prems show ?thesis by (simp add: ids_updateTodo)
  next
    case (Delete i rnd)
    with Cons.prems show ?thesis by (simp add: distinct_ids_deleteTodo)
  qed
  then show ?case using Cons.IH by simp
qed

subsection \<open>Evaluations on the seeded collection\<close>

lemma generateId_example:
  "generateId 1757505600999 (js ''0.4fzyo82mvyr'') = js ''mfdxggrr4fzyo82mvyr''"
  by (simp add: generateId_def toString36_def toString36_nat.simps digit36_def js_def)

lemma trim_example: "trim (js ''  Buy milk '') = js ''Buy milk''"
  by code_simp

lemma trim_example2: "trim (js ''2 liters'') = js ''2 liters''"
  by code_simp

lemma update_seed2:
  "updateTodo \<lparr>u_id = js ''2'', u_title = None, u_description = None, u_completed = Some False\<rparr>
     (1/2) t todos =
   (\<lparr>success = True,
     data = Some \<lparr>todo_id = js ''2'', title = js ''Wait fo FC26 to be launched'',
                  description = js ''Cant wait to see the new features'', completed = False,
                  createdAt = (2025, 9, 7, 11, 0, 0, 0), updatedAt = t\<rparr>,
     error = None, message = Some (js ''Todo updated successfully'')\<rparr>,
    todos[1 := \<lparr>todo_id = js ''2'', title = js ''Wait fo FC26 to be launched'',
                 description = js ''Cant wait to see the new features'', completed = False,
                 createdAt = (2025, 9, 7, 11, 0, 0, 0), updatedAt = t\<rparr>])"
  by (simp add: updateTodo_def updateTodo_try_def shouldFail_def Let_def merge_def todos_def)

section \<open>The claims\<close>

subsection \<open>C1: updating an identifier that is not there\<close>

text \<open>
  Claim C1, as stated, asks for a not-found message for every value of the random draw. The
  draw is tested before the lookup: with a draw below 0.05 the envelope carries the message of
  the injected failure, here for the identifier \<^verbatim>\<open>99\<close> on the seeded array.
\<close>

theorem update_missing_id_counterexample:
  "js ''99'' \<notin> set (map todo_id todos) \<and>
   error (fst (updateTodo \<lparr>u_id = js ''99'', u_title = None, u_description = None,
                           u_completed = Some True\<rparr> (1/100) (2025, 10, 1, 9, 0, 0, 0) todos)) =
     Some (js ''Failed to update todo. Please try again.'') \<and>
   js ''Failed to update todo. Please try again.'' \<noteq> js ''Todo not found''"
  by (simp add: todos_ids updateTodo_injected)

text \<open>
  Claim C1, amended. When no record of the array has the identifier of the request, then for
  every value of the random draw \<^verbatim>\<open>updateTodo\<close> returns \<^verbatim>\<open>success\<close> false and leaves the
  array (hence its length) unchanged; the error is \<^verbatim>\<open>Todo not found\<close> when the draw is at
  least 0.05, and the message of the injected failure when it is below.
\<close>

theorem update_missing_id:
  assumes "u_id todoData \<notin> set (map todo_id ts)"
  shows "\<not> success (fst (updateTodo todoData rnd t ts)) \<and>
         snd (updateTodo todoData rnd t ts) = ts \<and>
         length (snd (updateTodo todoData rnd t ts)) = length ts \<and>
         error (fst (updateTodo todoData rnd t ts)) =
           Some (if rnd < 0.05 then js ''Failed to update todo. Please try again.''
                 else js ''Todo not found'')"
proof (cases "rnd < 0.05")
  case True
  then show ?thesis by (simp add: updateTodo_injected)
next
  case False
  with assms show ?thesis by (simp add: updateTodo_missing)
qed

theorem update_missing_id_witness:
  "js ''99'' \<notin> set (map todo_id todos) \<and>
   \<not> success (fst (updateTodo \<lparr>u_id = js ''99'', u_title = None, u_description = None,
                                 u_completed = Some True\<rparr> (1/2) (2025, 10, 1, 9, 0, 0, 0) todos)) \<and>
   snd (updateTodo \<lparr>u_id = js ''99'', u_title = None, u_description = None,
                    u_completed = Some True\<rparr> (1/2) (2025, 10, 1, 9, 0, 0, 0) todos) = todos \<and>
   error (fst (updateTodo \<lparr>u_id = js ''99'', u_title = None, u_description = None,
                           u_completed = Some True\<rparr> (1/2) (2025, 10, 1, 9, 0, 0, 0) todos)) =
     Some (js ''Todo not found'')"
proof -
  have absent: "u_id \<lparr>u_id = js ''99'', u_title = None, u_description = None,
                      u_completed = Some True\<rparr> \<notin> set (map todo_id todos)"
    by (simp add: todos_ids)
  show ?thesis
    using update_missing_id [OF absent, of "1/2" "(2025, 10, 1, 9, 0, 0, 0)"] absent
    by simp
qed

subsection \<open>C2: \<open>updatedAt\<close> is not before \<open>createdAt\<close>\<close>

text \<open>
  Claim C2 includes the seeded array. Its first record, \<^verbatim>\<open>id: '1'\<close>, is created at
  \<^verbatim>\<open>2025-09-01T11:00:00Z\<close> and updated at \<^verbatim>\<open>2025-09-01T10:00:00Z\<close>, one hour earlier.
\<close>

theorem seeded_updatedAt_before_createdAt:
  "todo_id (todos ! 0) = js ''1'' \<and> updatedAt (todos ! 0) < createdAt (todos ! 0)"
  by (simp add: todos_def)

subsection \<open>C3: what \<open>createTodo\<close> creates\<close>

text \<open>
  Claim C3 asks for \<^verbatim>\<open>createdAt == updatedAt\<close> on every created record. The object literal
  evaluates \<^verbatim>\<open>new Date().toISOString()\<close> once for each of the two fields; when the clock
  ticks between the two readings (here from 12:00:00.999 to 12:00:01.000) the created record has
  different stamps. The rest of the claim holds on this call: the record is not completed,
  carries the trimmed title and description, and is appended to the end of the array.
\<close>

theorem createTodo_reads_clock_twice:
  "createTodo \<lparr>c_title = js ''  Buy milk '', c_description = js ''2 liters''\<rparr>
     (1/2) 1757505600999 (js ''0.4fzyo82mvyr'')
     (2025, 9, 10, 12, 0, 0, 999) (2025, 9, 10, 12, 0, 1, 0) todos =
   (\<lparr>success = True,
     data = Some \<lparr>todo_id = js ''mfdxggrr4fzyo82mvyr'', title = js ''Buy milk'',
                  description = js ''2 liters'', completed = False,
                  createdAt = (2025, 9, 10, 12, 0, 0, 999),
                  updatedAt = (2025, 9, 10, 12, 0, 1, 0)\<rparr>,
     error = None, message = Some (js ''Todo created successfully'')\<rparr>,
    todos @ [\<lparr>todo_id = js ''mfdxggrr4fzyo82mvyr'', title = js ''Buy milk'',
               description = js ''2 liters'', completed = False,
               createdAt = (2025, 9, 10, 12, 0, 0, 999),
               updatedAt = (2025, 9, 10, 12, 0, 1, 0)\<rparr>]) \<and>
   (2025, 9, 10, 12, 0, 0, 999) \<noteq> ((2025, 9, 10, 12, 0, 1, 0) :: timestamp)"
  by (simp add: createTodo_ok generateId_example trim_example trim_example2)

subsection \<open>C4: updating an existing record\<close>

text \<open>
  Claim C4, as stated, has \<^verbatim>\<open>updatedAt\<close> advance strictly on every successful update. The
  field is overwritten with the clock reading of the call, whatever the stored value is: of two
  successful updates of the seeded record \<^verbatim>\<open>2\<close> that read the same instant, the second
  leaves \<^verbatim>\<open>updatedAt\<close> as the first set it.
\<close>

theorem update_same_instant_counterexample:
  "success (fst (updateTodo \<lparr>u_id = js ''2'', u_title = None, u_description = None,
                            u_completed = Some False\<rparr> (1/2) (2025, 10, 1, 9, 0, 0, 0)
              (snd (updateTodo \<lparr>u_id = js ''2'', u_title = None, u_description = None,
                               u_completed = Some False\<rparr> (1/2) (2025, 10, 1, 9, 0, 0, 0)
                      todos)))) \<and>
   \<not> updatedAt (snd (updateTodo \<lparr>u_id = js ''2'', u_title = None, u_description = None,
                                u_completed = Some False\<rparr> (1/2) (2025, 10, 1, 9, 0, 0, 0)
                     todos) ! 1)
     < updatedAt (snd (updateTodo \<lparr>u_id = js ''2'', u_title = None, u_description = None,
                                  u_completed = Some False\<rparr> (1/2) (2025, 10, 1, 9, 0, 0, 0)
                    (snd (updateTodo \<lparr>u_id = js ''2'', u_title = None, u_description = None,
                                     u_completed = Some False\<rparr> (1/2) (2025, 10, 1, 9, 0, 0, 0)
                            todos))) ! 1)"
  by (simp add: update_seed2)
     (simp add: updateTodo_def updateTodo_try_def shouldFail_def Let_def merge_def todos_def)

text \<open>
  Claim C4, amended. On every successful \<^verbatim>\<open>updateTodo\<close> the identifier of the request is
  that of the record at the index \<open>k\<close> that \<^verbatim>\<open>findIndex\<close> returns; the array changes at that
  index only, and the record there is the one returned as \<^verbatim>\<open>data\<close>. Its \<^verbatim>\<open>id\<close> and
  \<^verbatim>\<open>createdAt\<close> are unchanged, its \<^verbatim>\<open>updatedAt\<close> is the clock reading of the call (so it
  advances strictly exactly when that reading is later than the stored value), and each of
  \<^verbatim>\<open>title\<close>, \<^verbatim>\<open>description\<close>, \<^verbatim>\<open>completed\<close> is overwritten when the request supplies it
  and keeps its prior value when it does not.
\<close>

theorem update_existing_id:
  assumes "success (fst (updateTodo u rnd t ts))"
  shows "let k = nat (findIndex (\<lambda>todo. todo_id todo = u_id u) ts);
             old = ts ! k;
             new = snd (updateTodo u rnd t ts) ! k
         in k < length ts \<and> todo_id old = u_id u \<and>
            snd (updateTodo u rnd t ts) = ts[k := new] \<and>
            data (fst (updateTodo u rnd t ts)) = Some new \<and>
            todo_id new = todo_id old \<and>
            createdAt new = createdAt old \<and>
            updatedAt new = t \<and>
            title new = (case u_title u of Some v \<Rightarrow> v | None \<Rightarrow> title old) \<and>
            description new = (case u_description u of Some v \<Rightarrow> v | None \<Rightarrow> description old) \<and>
            completed new = (case u_completed u of Some v \<Rightarrow> v | None \<Rightarrow> completed old)"
proof -
  from assms have ok: "\<not> rnd < 0.05" and mem: "u_id u \<in> set (map todo_id ts)"
    by (simp_all add: updateTodo_success_iff)
  note lt = findIndex_id_lt [OF mem] and sat = findIndex_id_sat [OF mem]
  show ?thesis
    unfolding Let_def updateTodo_ok [OF ok mem]
    using lt sat by (simp add: merge_fields)
qed

theorem update_existing_id_witness:
  "success (fst (updateTodo \<lparr>u_id = js ''2'', u_title = None, u_description = None,
                            u_completed = Some False\<rparr> (1/2) (2025, 10, 1, 9, 0, 0, 0) todos)) \<and>
   snd (updateTodo \<lparr>u_id = js ''2'', u_title = None, u_description = None,
                    u_completed = Some False\<rparr> (1/2) (2025, 10, 1, 9, 0, 0, 0) todos) ! 1 =
     \<lparr>todo_id = js ''2'', title = js ''Wait fo FC26 to be launched'',
      description = js ''Cant wait to see the new features'', completed = False,
      createdAt = (2025, 9, 7, 11, 0, 0, 0), updatedAt = (2025, 10, 1, 9, 0, 0, 0)\<rparr>"
proof -
  let ?u = "\<lparr>u_id = js ''2'', u_title = None, u_description = None, u_completed = Some False\<rparr>"
  let ?new = "snd (updateTodo ?u (1/2) (2025, 10, 1, 9, 0, 0, 0) todos) ! 1"
  have ok: "success (fst (updateTodo ?u (1/2) (2025, 10, 1, 9, 0, 0, 0) todos))"
    by (simp add: updateTodo_success_iff todos_ids)
  have k: "nat (findIndex (\<lambda>todo. todo_id todo = u_id ?u) todos) = 1"
    by (simp add: todos_def)
  have old: "todos ! 1 =
      \<lparr>todo_id = js ''2'', title = js ''Wait fo FC26 to be launched'',
       description = js ''Cant wait to see the new features'', completed = True,
       createdAt = (2025, 9, 7, 11, 0, 0, 0), updatedAt = (2025, 9, 8, 12, 0, 0, 0)\<rparr>"
    by (simp add: todos_def)
  note w = update_existing_id [OF ok, unfolded Let_def k]
  from w have "todo_id ?new = todo_id (todos ! 1)" and "createdAt ?new = createdAt (todos ! 1)"
    and "updatedAt ?new = (2025, 10, 1, 9, 0, 0, 0)"
    and "title ?new = (case u_title ?u of Some v \<Rightarrow> v | None \<Rightarrow> title (todos ! 1))"
    and "description ?new =
           (case u_description ?u of Some v \<Rightarrow> v | None \<Rightarrow> description (todos ! 1))"
    and "completed ?new = (case u_completed ?u of Some v \<Rightarrow> v | None \<Rightarrow> completed (todos ! 1))"
    by blast+
  note fields = this [unfolded old]
  have "?new =
     \<lparr>todo_id = js ''2'', title = js ''Wait fo FC26 to be launched'',
      description = js ''Cant wait to see the new features'', completed = False,
      createdAt = (2025, 9, 7, 11, 0, 0, 0), updatedAt = (2025, 10, 1, 9, 0, 0, 0)\<rparr>"
    by (rule Todo.equality) (use fields in simp_all)
  with ok show ?thesis by blast
qed

subsection \<open>C5: a failed call changes nothing\<close>

text \<open>
  Claim C5. For each of the four operations and every value of the random draw, when the
  returned envelope has \<^verbatim>\<open>success\<close> false the array after the call is the array before it:
  no record is added, removed or modified. (\<^verbatim>\<open>fetchTodos\<close> never changes the array at all.)
\<close>

theorem failure_leaves_collection_unchanged:
  "snd (fetchTodos rnd ts) = ts \<and>
   (\<not> success (fst (createTodo c rnd now rnd36 t1 t2 ts)) \<longrightarrow>
      snd (createTodo c rnd now rnd36 t1 t2 ts) = ts) \<and>
   (\<not> success (fst (updateTodo u rnd t ts)) \<longrightarrow> snd (updateTodo u rnd t ts) = ts) \<and>
   (\<not> success (fst (deleteTodo i rnd ts)) \<longrightarrow> snd (deleteTodo i rnd ts) = ts)"
  by (simp add: fetchTodos_eq createTodo_cases updateTodo_failure_unchanged
        deleteTodo_failure_unchanged)

theorem failure_leaves_collection_unchanged_witness:
  "\<not> success (fst (createTodo \<lparr>c_title = js ''Buy milk'', c_description = js ''2 liters''\<rparr>
                     (1/100) 1757505600999 (js ''0.4fzyo82mvyr'')
                     (2025, 9, 10, 12, 0, 0, 999) (2025, 9, 10, 12, 0, 1, 0) todos)) \<and>
   snd (createTodo \<lparr>c_title = js ''Buy milk'', c_description = js ''2 liters''\<rparr>
          (1/100) 1757505600999 (js ''0.4fzyo82mvyr'')
          (2025, 9, 10, 12, 0, 0, 999) (2025, 9, 10, 12, 0, 1, 0) todos) = todos \<and>
   \<not> success (fst (updateTodo \<lparr>u_id = js ''99'', u_title = None, u_description = None,
                                 u_completed = Some True\<rparr>
                     (1/100) (2025, 9, 10, 12, 0, 0, 999) todos)) \<and>
   snd (updateTodo \<lparr>u_id = js ''99'', u_title = None, u_description = None,
                    u_completed = Some True\<rparr>
          (1/100) (2025, 9, 10, 12, 0, 0, 999) todos) = todos \<and>
   \<not> success (fst (deleteTodo (js ''2'') (1/100) todos)) \<and>
   snd (deleteTodo (js ''2'') (1/100) todos) = todos"
  using failure_leaves_collection_unchanged
    [of "1/100" todos "\<lparr>c_title = js ''Buy milk'', c_description = js ''2 liters''\<rparr>"
        1757505600999 "js ''0.4fzyo82mvyr''"
        "(2025, 9, 10, 12, 0, 0, 999)" "(2025, 9, 10, 12, 0, 1, 0)"
        "\<lparr>u_id = js ''99'', u_title = None, u_description = None, u_completed = Some True\<rparr>"
        "(2025, 9, 10, 12, 0, 0, 999)" "js ''2''"]
  by (simp add: createTodo_injected updateTodo_injected deleteTodo_injected)

subsection \<open>C6: listing never fails\<close>

text \<open>
  Claim C6. In every state of the array and for every value the random draw could take,
  \<^verbatim>\<open>fetchTodos\<close> returns an envelope with \<^verbatim>\<open>success\<close> true whose \<^verbatim>\<open>data\<close> is (a copy of) the
  whole current array; no error is set and the array is left as it was.
\<close>

theorem fetchTodos_never_fails:
  "success (fst (fetchTodos rnd ts)) \<and> data (fst (fetchTodos rnd ts)) = Some ts \<and>
   error (fst (fetchTodos rnd ts)) = None \<and> snd (fetchTodos rnd ts) = ts"
  by (simp add: fetchTodos_eq)

subsection \<open>C7: deleting\<close>

text \<open>
  Claim C7. When \<^verbatim>\<open>deleteTodo\<close> succeeds on an identifier present in the array, exactly one
  record is removed: the one at the index \<open>k\<close> that \<^verbatim>\<open>findIndex\<close> returns, which has that
  identifier; the length decreases by one, and when the identifiers of the array are pairwise
  distinct the result is the array without the records of that identifier. On an identifier
  that is not in the array, for every value of the random draw, the array and its length are
  unchanged, the envelope reports failure with an error, and it carries the additional
  \<^verbatim>\<open>message\<close> field \<^verbatim>\<open>Failed to delete todo\<close>.
\<close>

theorem delete_removes_one:
  "(i \<in> set (map todo_id ts) \<and> success (fst (deleteTodo i rnd ts)) \<longrightarrow>
      (let k = nat (findIndex (\<lambda>todo. todo_id todo = i) ts)
       in k < length ts \<and> todo_id (ts ! k) = i \<and>
          snd (deleteTodo i rnd ts) = take k ts @ drop (Suc k) ts \<and>
          Suc (length (snd (deleteTodo i rnd ts))) = length ts \<and>
          (distinct (map todo_id ts) \<longrightarrow>
             snd (deleteTodo i rnd ts) = filter (\<lambda>todo. todo_id todo \<noteq> i) ts))) \<and>
   (i \<notin> set (map todo_id ts) \<longrightarrow>
      \<not> success (fst (deleteTodo i rnd ts)) \<and>
      snd (deleteTodo i rnd ts) = ts \<and>
      length (snd (deleteTodo i rnd ts)) = length ts \<and>
      error (fst (deleteTodo i rnd ts)) \<noteq> None \<and>
      message (fst (deleteTodo i rnd ts)) = Some (js ''Failed to delete todo''))"
proof (intro conjI impI)
  assume "i \<in> set (map todo_id ts) \<and> success (fst (deleteTodo i rnd ts))"
  then have mem: "i \<in> set (map todo_id ts)" and ok: "\<not> rnd < 0.05"
    by (simp_all add: deleteTodo_success_iff)
  define k where "k = nat (findIndex (\<lambda>todo. todo_id todo = i) ts)"
  have lt: "k < length ts" and sat: "todo_id (ts ! k) = i"
    unfolding k_def using findIndex_id_lt [OF mem] findIndex_id_sat [OF mem] by simp_all
  have res: "snd (deleteTodo i rnd ts) = splice1 k ts"
    unfolding k_def by (simp add: deleteTodo_ok [OF ok mem])
  have "distinct (map todo_id ts) \<longrightarrow> splice1 k ts = filter (\<lambda>todo. todo_id todo \<noteq> i) ts"
    using splice1_filter [of todo_id ts k] lt sat by simp
  with lt sat res length_splice1 [OF lt]
  have "k < length ts \<and> todo_id (ts ! k) = i \<and>
          snd (deleteTodo i rnd ts) = take k ts @ drop (Suc k) ts \<and>
          Suc (length (snd (deleteTodo i rnd ts))) = length ts \<and>
          (distinct (map todo_id ts) \<longrightarrow>
             snd (deleteTodo i rnd ts) = filter (\<lambda>todo. todo_id todo \<noteq> i) ts)"
    by (simp add: splice1_def)
  then show "let k = nat (findIndex (\<lambda>todo. todo_id todo = i) ts)
       in k < length ts \<and> todo_id (ts ! k) = i \<and>
          snd (deleteTodo i rnd ts) = take k ts @ drop (Suc k) ts \<and>
          Suc (length (snd (deleteTodo i rnd ts))) = length ts \<and>
          (distinct (map todo_id ts) \<longrightarrow>
             snd (deleteTodo i rnd ts) = filter (\<lambda>todo. todo_id todo \<noteq> i) ts)"
    unfolding Let_def k_def .
next
  assume absent: "i \<notin> set (map todo_id ts)"
  then have nok: "\<not> success (fst (deleteTodo i rnd ts))"
    by (simp add: deleteTodo_success_iff)
  then show "\<not> success (fst (deleteTodo i rnd ts))" .
  from nok show "snd (deleteTodo i rnd ts) = ts" by (rule deleteTodo_failure_unchanged)
  then show "length (snd (deleteTodo i rnd ts)) = length ts" by simp
  from nok show "error (fst (deleteTodo i rnd ts)) \<noteq> None"
    by (simp add: deleteTodo_failure_envelope)
  from nok show "message (fst (deleteTodo i rnd ts)) = Some (js ''Failed to delete todo'')"
    by (simp add: deleteTodo_failure_envelope)
qed

theorem delete_removes_one_witness:
  "js ''2'' \<in> set (map todo_id todos) \<and> success (fst (deleteTodo (js ''2'') (1/2) todos)) \<and>
   distinct (map todo_id todos) \<and>
   snd (deleteTodo (js ''2'') (1/2) todos) = [todos ! 0, todos ! 2] \<and>
   js ''99'' \<notin> set (map todo_id todos) \<and>
   \<not> success (fst (deleteTodo (js ''99'') (1/2) todos)) \<and>
   snd (deleteTodo (js ''99'') (1/2) todos) = todos \<and>
   message (fst (deleteTodo (js ''99'') (1/2) todos)) = Some (js ''Failed to delete todo'')"
proof -
  have a: "js ''2'' \<in> set (map todo_id todos)" and b: "js ''99'' \<notin> set (map todo_id todos)"
    and d: "distinct (map todo_id todos)"
    by (simp_all add: todos_ids)
  have s: "success (fst (deleteTodo (js ''2'') (1/2) todos))"
    by (simp add: deleteTodo_success_iff todos_ids)
  have f: "filter (\<lambda>todo. todo_id todo \<noteq> js ''2'') todos = [todos ! 0, todos ! 2]"
    by (simp add: todos_def)
  note present = delete_removes_one [of "js ''2''" todos "1/2", unfolded Let_def]
  note missing = delete_removes_one [of "js ''99''" todos "1/2"]
  from present a s d
  have "snd (deleteTodo (js ''2'') (1/2) todos) = filter (\<lambda>todo. todo_id todo \<noteq> js ''2'') todos"
    by blast
  moreover from missing b
  have "\<not> success (fst (deleteTodo (js ''99'') (1/2) todos)) \<and>
        snd (deleteTodo (js ''99'') (1/2) todos) = todos \<and>
        message (fst (deleteTodo (js ''99'') (1/2) todos)) = Some (js ''Failed to delete todo'')"
    by blast
  ultimately show ?thesis
    using a b d s f by simp
qed

subsection \<open>C8: updating twice with the same payload\<close>

text \<open>
  Claim C8. When \<^verbatim>\<open>updateTodo\<close> is called twice in succession with the same request and both
  calls succeed, the record after the second call is the record after the first with only
  \<^verbatim>\<open>updatedAt\<close> replaced: \<^verbatim>\<open>id\<close>, \<^verbatim>\<open>title\<close>, \<^verbatim>\<open>description\<close>, \<^verbatim>\<open>completed\<close> and
  \<^verbatim>\<open>createdAt\<close> are the same as after one call, and no other record changes.
\<close>

theorem update_twice_same_payload:
  assumes "success (fst (updateTodo u r1 t1 ts))"
    and "success (fst (updateTodo u r2 t2 (snd (updateTodo u r1 t1 ts))))"
  shows "let k = nat (findIndex (\<lambda>todo. todo_id todo = u_id u) ts);
             once = snd (updateTodo u r1 t1 ts);
             twice = snd (updateTodo u r2 t2 once)
         in data (fst (updateTodo u r1 t1 ts)) = Some (once ! k) \<and>
            data (fst (updateTodo u r2 t2 once)) = Some (twice ! k) \<and>
            twice = once[k := (once ! k)\<lparr>updatedAt := t2\<rparr>] \<and>
            twice ! k = (once ! k)\<lparr>updatedAt := t2\<rparr> \<and>
            todo_id (twice ! k) = todo_id (once ! k) \<and>
            title (twice ! k) = title (once ! k) \<and>
            description (twice ! k) = description (once ! k) \<and>
            completed (twice ! k) = completed (once ! k) \<and>
            createdAt (twice ! k) = createdAt (once ! k)"
proof -
  define p where "p = (\<lambda>todo :: Todo. todo_id todo = u_id u)"
  define k where "k = nat (findIndex p ts)"
  define new where "new = merge (ts ! k) u t1"
  from assms(1) have ok1: "\<not> r1 < 0.05" and mem: "u_id u \<in> set (map todo_id ts)"
    by (simp_all add: updateTodo_success_iff)
  from assms(2) have ok2: "\<not> r2 < 0.05"
    and mem_once: "u_id u \<in> set (map todo_id (snd (updateTodo u r1 t1 ts)))"
    by (simp_all add: updateTodo_success_iff)
  have found: "findIndex p ts \<noteq> - 1"
    unfolding p_def using mem by (simp add: findIndex_id_none_iff)
  have lt: "k < length ts"
    unfolding k_def p_def by (rule findIndex_id_lt [OF mem])
  have once: "updateTodo u r1 t1 ts =
      (\<lparr>success = True, data = Some new, error = None,
        message = Some (js ''Todo updated successfully'')\<rparr>, ts[k := new])"
    unfolding new_def k_def p_def by (rule updateTodo_ok [OF ok1 mem])
  have pnew: "p new" by (simp add: p_def new_def merge_fields)
  have same: "findIndex p (ts[k := new]) = findIndex p ts"
    unfolding k_def by (rule findIndex_update_same [OF found pnew])
  have mem2: "u_id u \<in> set (map todo_id (ts[k := new]))"
    using mem_once by (simp add: once)
  have twice: "updateTodo u r2 t2 (ts[k := new]) =
      (\<lparr>success = True, data = Some (new\<lparr>updatedAt := t2\<rparr>), error = None,
        message = Some (js ''Todo updated successfully'')\<rparr>,
       ts[k := new\<lparr>updatedAt := t2\<rparr>])"
    using updateTodo_ok [OF ok2 mem2, of t2] same lt
    by (simp add: p_def [symmetric] k_def [symmetric] new_def merge_twice)
  show ?thesis
    unfolding Let_def p_def [symmetric] k_def [symmetric]
    using lt by (simp add: once twice)
qed

theorem update_twice_same_payload_witness:
  "success (fst (updateTodo \<lparr>u_id = js ''2'', u_title = None, u_description = None,
                            u_completed = Some False\<rparr> (1/2) (2025, 10, 1, 9, 0, 0, 0) todos)) \<and>
   success (fst (updateTodo \<lparr>u_id = js ''2'', u_title = None, u_description = None,
                            u_completed = Some False\<rparr> (3/4) (2025, 10, 1, 9, 0, 2, 500)
              (snd (updateTodo \<lparr>u_id = js ''2'', u_title = None, u_description = None,
                               u_completed = Some False\<rparr> (1/2) (2025, 10, 1, 9, 0, 0, 0)
                      todos)))) \<and>
   snd (updateTodo \<lparr>u_id = js ''2'', u_title = None, u_description = None,
                    u_completed = Some False\<rparr> (3/4) (2025, 10, 1, 9, 0, 2, 500)
          (snd (updateTodo \<lparr>u_id = js ''2'', u_title = None, u_description = None,
                           u_completed = Some False\<rparr> (1/2) (2025, 10, 1, 9, 0, 0, 0)
                  todos))) ! 1 =
     (snd (updateTodo \<lparr>u_id = js ''2'', u_title = None, u_description = None,
                      u_completed = Some False\<rparr> (1/2) (2025, 10, 1, 9, 0, 0, 0) todos) ! 1)
       \<lparr>updatedAt := (2025, 10, 1, 9, 0, 2, 500)\<rparr>"
proof -
  let ?u = "\<lparr>u_id = js ''2'', u_title = None, u_description = None, u_completed = Some False\<rparr>"
  let ?once = "snd (updateTodo ?u (1/2) (2025, 10, 1, 9, 0, 0, 0) todos)"
  have first: "success (fst (updateTodo ?u (1/2) (2025, 10, 1, 9, 0, 0, 0) todos))"
    by (simp add: updateTodo_success_iff todos_ids)
  have "map todo_id ?once = [js ''1'', js ''2'', js ''3'']"
    by (simp add: update_seed2) (simp add: todos_def)
  then have second: "success (fst (updateTodo ?u (3/4) (2025, 10, 1, 9, 0, 2, 500) ?once))"
    by (simp add: updateTodo_success_iff)
  have k: "nat (findIndex (\<lambda>todo. todo_id todo = u_id ?u) todos) = 1"
    by (simp add: todos_def)
  note w = update_twice_same_payload [OF first second, unfolded Let_def k]
  from w first second show ?thesis by blast
qed

subsection \<open>C9: identifiers are pairwise distinct\<close>

text \<open>
  Claim C9: after every sequence of operations the identifiers of the records are pairwise
  distinct. \<^verbatim>\<open>generateId\<close>, commented \<^verbatim>\<open>Generate unique ID\<close>, derives the identifier from
  \<^verbatim>\<open>Date.now()\<close> and \<^verbatim>\<open>Math.random()\<close> alone, and \<^verbatim>\<open>createTodo\<close> pushes the record without
  comparing it with the identifiers in the array. On the seeded array, two successful calls
  that read the same millisecond and the same random number leave two records with the
  identifier \<^verbatim>\<open>mfdxggrr4fzyo82mvyr\<close>.
\<close>

theorem createTodo_colliding_ids:
  "map todo_id (run todos
       [Create \<lparr>c_title = js ''Buy milk'', c_description = js ''2 liters''\<rparr>
          (1/2) 1757505600999 (js ''0.4fzyo82mvyr'')
          (2025, 9, 10, 12, 0, 0, 999) (2025, 9, 10, 12, 0, 0, 999),
        Create \<lparr>c_title = js ''Buy bread'', c_description = js ''1 loaf''\<rparr>
          (3/4) 1757505600999 (js ''0.4fzyo82mvyr'')
          (2025, 9, 10, 12, 0, 0, 999) (2025, 9, 10, 12, 0, 0, 999)]) =
     [js ''1'', js ''2'', js ''3'', js ''mfdxggrr4fzyo82mvyr'', js ''mfdxggrr4fzyo82mvyr''] \<and>
   \<not> distinct (map todo_id (run todos
       [Create \<lparr>c_title = js ''Buy milk'', c_description = js ''2 liters''\<rparr>
          (1/2) 1757505600999 (js ''0.4fzyo82mvyr'')
          (2025, 9, 10, 12, 0, 0, 999) (2025, 9, 10, 12, 0, 0, 999),
        Create \<lparr>c_title = js ''Buy bread'', c_description = js ''1 loaf''\<rparr>
          (3/4) 1757505600999 (js ''0.4fzyo82mvyr'')
          (2025, 9, 10, 12, 0, 0, 999) (2025, 9, 10, 12, 0, 0, 999)]))"
  by (simp add: createTodo_ok generateId_example todos_ids)

subsection \<open>C10: the envelopes are well-formed\<close>

text \<open>
  Claim C10. Every envelope the four operations return is well-formed: with \<^verbatim>\<open>success\<close> true,
  \<^verbatim>\<open>data\<close> and \<^verbatim>\<open>message\<close> are set and \<^verbatim>\<open>error\<close> is absent; with \<^verbatim>\<open>success\<close> false,
  \<^verbatim>\<open>error\<close> is a non-empty string and \<^verbatim>\<open>data\<close> is absent. A failed \<^verbatim>\<open>deleteTodo\<close> always
  sets \<^verbatim>\<open>message\<close> to the fixed text \<^verbatim>\<open>Failed to delete todo\<close>, whether the record was not
  found or the failure was injected, so the two kinds differ in the \<^verbatim>\<open>error\<close> text only.
\<close>

theorem envelopes_wellFormed:
  "wellFormed (fst (fetchTodos rnd ts)) \<and>
   wellFormed (fst (createTodo c rnd now rnd36 t1 t2 ts)) \<and>
   wellFormed (fst (updateTodo u rnd t ts)) \<and>
   wellFormed (fst (deleteTodo i rnd ts)) \<and>
   (\<not> success (fst (deleteTodo i rnd ts)) \<longrightarrow>
      fst (deleteTodo i rnd ts) =
        \<lparr>success = False, data = None,
         error = Some (if rnd < 0.05 then js ''Failed to delete todo. Please try again.''
                       else js ''Todo not found''),
         message = Some (js ''Failed to delete todo'')\<rparr>)"
proof -
  have "wellFormed (fst (fetchTodos rnd ts))"
    by (simp add: wellFormed_def fetchTodos_eq)
  moreover have "wellFormed (fst (createTodo c rnd now rnd36 t1 t2 ts))"
    by (simp add: wellFormed_def createTodo_cases)
  ultimately show ?thesis
    using wellFormed_updateTodo wellFormed_deleteTodo deleteTodo_failure_envelope by blast
qed

theorem envelopes_wellFormed_witness:
  "\<not> success (fst (deleteTodo (js ''99'') (1/2) todos)) \<and>
   fst (deleteTodo (js ''99'') (1/2) todos) =
     \<lparr>success = False, data = None, error = Some (js ''Todo not found''),
      message = Some (js ''Failed to delete todo'')\<rparr> \<and>
   wellFormed (fst (fetchTodos (1/2) todos)) \<and>
   wellFormed (fst (createTodo \<lparr>c_title = js ''Buy milk'', c_description = js ''2 liters''\<rparr>
                      (1/2) 1757505600999 (js ''0.4fzyo82mvyr'')
                      (2025, 9, 10, 12, 0, 0, 999) (2025, 9, 10, 12, 0, 1, 0) todos)) \<and>
   wellFormed (fst (updateTodo \<lparr>u_id = js ''2'', u_title = None, u_description = None,
                                u_completed = Some False\<rparr>
                      (1/2) (2025, 9, 10, 12, 0, 0, 999) todos)) \<and>
   wellFormed (fst (deleteTodo (js ''99'') (1/2) todos))"
proof -
  have failed: "\<not> success (fst (deleteTodo (js ''99'') (1/2) todos))"
    by (simp add: deleteTodo_success_iff todos_ids)
  show ?thesis
    using failed
      envelopes_wellFormed
        [of "1/2" todos "\<lparr>c_title = js ''Buy milk'', c_description = js ''2 liters''\<rparr>"
            1757505600999 "js ''0.4fzyo82mvyr''"
            "(2025, 9, 10, 12, 0, 0, 999)" "(2025, 9, 10, 12, 0, 1, 0)"
            "\<lparr>u_id = js ''2'', u_title = None, u_description = None,
              u_completed = Some False\<rparr>"
            "(2025, 9, 10, 12, 0, 0, 999)" "js ''99''"]
    by (simp add: wellFormed_def)
qed

end
